theory Spec2Isabelle
  imports Main
begin

section \<open>Errors (errors.go)\<close>

text \<open>
  A Go \<open>error\<close> value is either a \<open>ConfigError\<close> of this package or some other error
  (\<open>fmt.Errorf\<close>, an error of package \<open>os\<close>, an error of the caller's serializer), which
  is identified by the text its \<open>Error()\<close> method returns. The field \<open>Err\<close> is an interface
  and may be nil: \<open>None\<close>.
\<close>

datatype go_error =
    PlainError string
  | ConfigError (Operation: string) (Path: string) (Err: "go_error option")

text \<open>
  \<open>strconv.Quote\<close>, which \<open>fmt\<close> applies for the verb \<open>%q\<close>: the string in double quotes,
  with Go's escapes for the quote, the backslash and the control characters. Bytes from
  0x80 on are kept (Go keeps a printable rune of valid UTF-8).
\<close>

definition hex_digit :: "nat \<Rightarrow> char" where
  "hex_digit n = ''0123456789abcdef'' ! (n mod 16)"

definition quote_byte :: "char \<Rightarrow> string" where
  "quote_byte c =
     (if c = CHR 0x22 then [CHR 0x5C, CHR 0x22]
      else if c = CHR 0x5C then [CHR 0x5C, CHR 0x5C]
      else if c = CHR 0x07 then [CHR 0x5C, CHR ''a'']
      else if c = CHR 0x08 then [CHR 0x5C, CHR ''b'']
      else if c = CHR 0x0C then [CHR 0x5C, CHR ''f'']
      else if c = CHR 0x0A then [CHR 0x5C, CHR ''n'']
      else if c = CHR 0x0D then [CHR 0x5C, CHR ''r'']
      else if c = CHR 0x09 then [CHR 0x5C, CHR ''t'']
      else if c = CHR 0x0B then [CHR 0x5C, CHR ''v'']
      else if of_char c < (0x20 :: nat) then
        [CHR 0x5C, CHR ''x'', hex_digit (of_char c div 16), hex_digit (of_char c)]
      else if c = CHR 0x7F then [CHR 0x5C, CHR ''x'', CHR ''7'', CHR ''f'']
      else [c])"

definition strconv_Quote :: "string \<Rightarrow> string" where
  "strconv_Quote s = [CHR 0x22] @ concat (map quote_byte s) @ [CHR 0x22]"

text \<open>
  \<open>ConfigError.Error\<close>. The first branch formats \<open>e.Err\<close> with \<open>%s\<close>, the second with
  \<open>%v\<close>; both call the \<open>Error()\<close> method of a non-nil error, and differ on nil.
\<close>

fun Error :: "go_error \<Rightarrow> string" where
  "Error (PlainError msg) = msg"
| "Error (ConfigError operation path err) =
     (if path \<noteq> []
      then ''config error: '' @ operation @ '': '' @
             (case err of None \<Rightarrow> ''%!s(<nil>)'' | Some e \<Rightarrow> Error e)
      else ''config error: '' @ operation @ '' '' @ strconv_Quote path @ '': '' @
             (case err of None \<Rightarrow> ''<nil>'' | Some e \<Rightarrow> Error e))"

text \<open>\<open>ConfigError.Unwrap\<close>, a method of \<open>ConfigError\<close> only: the field \<open>Err\<close>.\<close>

definition Unwrap :: "go_error \<Rightarrow> go_error option" where
  "Unwrap e = Err e"

definition NewError :: "string \<Rightarrow> string \<Rightarrow> go_error option \<Rightarrow> go_error" where
  "NewError operation path err = ConfigError operation path err"

section \<open>The environment of the manager\<close>

type_synonym bytes = string

text \<open>
  The functions of packages \<open>os\<close> and \<open>path/filepath\<close> that the manager calls, over a
  file-system state \<open>'w\<close>. \<open>os.Stat\<close> and \<open>os.ReadFile\<close> read the state; \<open>os.MkdirAll\<close>
  and \<open>os.WriteFile\<close> return the new one, also when they fail. The \<open>nat\<close> is the
  permission argument.
\<close>

record 'w platform =
  os_Stat :: "string \<Rightarrow> 'w \<Rightarrow> go_error option"
  os_MkdirAll :: "string \<Rightarrow> nat \<Rightarrow> 'w \<Rightarrow> go_error option \<times> 'w"
  os_WriteFile :: "string \<Rightarrow> bytes \<Rightarrow> nat \<Rightarrow> 'w \<Rightarrow> go_error option \<times> 'w"
  os_ReadFile :: "string \<Rightarrow> 'w \<Rightarrow> go_error + bytes"
  os_UserHomeDir :: "'w \<Rightarrow> go_error + string"
  filepath_Dir :: "string \<Rightarrow> string"
  filepath_Join :: "string list \<Rightarrow> string"

text \<open>
  A value of the interface \<open>Serializer\<close> (serializer.go): the object behind it, named by
  \<open>ident\<close>, and its two methods, which read and change the caller's objects \<open>'u\<close>
  (\<open>Unmarshal\<close> fills its receiver). A nil interface is \<open>None\<close> of the option type.
  The methods belong to the caller: they are taken to return, and to leave the file
  system as it is.
\<close>

record 'u Serializer =
  ident :: nat
  Marshal :: "'u \<Rightarrow> (bytes \<times> go_error option) \<times> 'u"
  Unmarshal :: "bytes \<Rightarrow> 'u \<Rightarrow> go_error option \<times> 'u"

text \<open>Every call that leaves the package is recorded, in order.\<close>

datatype event =
    EvStat string
  | EvMkdirAll string nat
  | EvMarshal nat
  | EvWriteFile string bytes nat
  | EvReadFile string
  | EvUnmarshal nat bytes
  | EvUserHomeDir

record ('w, 'u) state =
  fs :: 'w
  heap :: 'u
  trace :: "event list"

text \<open>A call returns, or panics (a method called on a nil interface).\<close>

datatype 'a result = Returns 'a | Panics

definition call_Stat ::
  "'w platform \<Rightarrow> string \<Rightarrow> ('w, 'u) state \<Rightarrow> go_error option \<times> ('w, 'u) state" where
  "call_Stat P path s = (os_Stat P path (fs s), s\<lparr>trace := trace s @ [EvStat path]\<rparr>)"

definition call_MkdirAll ::
  "'w platform \<Rightarrow> string \<Rightarrow> nat \<Rightarrow> ('w, 'u) state \<Rightarrow> go_error option \<times> ('w, 'u) state" where
  "call_MkdirAll P dir perm s =
     (case os_MkdirAll P dir perm (fs s) of
        (err, w) \<Rightarrow> (err, s\<lparr>fs := w, trace := trace s @ [EvMkdirAll dir perm]\<rparr>))"

definition call_WriteFile ::
  "'w platform \<Rightarrow> string \<Rightarrow> bytes \<Rightarrow> nat \<Rightarrow> ('w, 'u) state \<Rightarrow> go_error option \<times> ('w, 'u) state" where
  "call_WriteFile P path data perm s =
     (case os_WriteFile P path data perm (fs s) of
        (err, w) \<Rightarrow> (err, s\<lparr>fs := w, trace := trace s @ [EvWriteFile path data perm]\<rparr>))"

definition call_ReadFile ::
  "'w platform \<Rightarrow> string \<Rightarrow> ('w, 'u) state \<Rightarrow> (go_error + bytes) \<times> ('w, 'u) state" where
  "call_ReadFile P path s = (os_ReadFile P path (fs s), s\<lparr>trace := trace s @ [EvReadFile path]\<rparr>)"

definition call_UserHomeDir ::
  "'w platform \<Rightarrow> ('w, 'u) state \<Rightarrow> (go_error + string) \<times> ('w, 'u) state" where
  "call_UserHomeDir P s = (os_UserHomeDir P (fs s), s\<lparr>trace := trace s @ [EvUserHomeDir]\<rparr>)"

definition call_Marshal ::
  "'u Serializer \<Rightarrow> ('w, 'u) state \<Rightarrow> (bytes \<times> go_error option) \<times> ('w, 'u) state" where
  "call_Marshal ser s =
     (case Marshal ser (heap s) of
        (r, h) \<Rightarrow> (r, s\<lparr>heap := h, trace := trace s @ [EvMarshal (ident ser)]\<rparr>))"

definition call_Unmarshal ::
  "'u Serializer \<Rightarrow> bytes \<Rightarrow> ('w, 'u) state \<Rightarrow> go_error option \<times> ('w, 'u) state" where
  "call_Unmarshal ser data s =
     (case Unmarshal ser data (heap s) of
        (err, h) \<Rightarrow> (err, s\<lparr>heap := h, trace := trace s @ [EvUnmarshal (ident ser) data]\<rparr>))"

section \<open>The manager (manager.go)\<close>

record 'u Defaults =
  AppName :: string
  DefaultConfigValues :: "'u Serializer option"

record 'u ConfigManager =
  defaults :: "'u Defaults"
  filePath :: string

text \<open>
  \<open>NewConfigManager\<close> returns the pointer (\<open>None\<close> is nil) and the error. The methods
  below take the manager that a pointer refers to; a nil receiver is not modelled.
\<close>

definition NewConfigManager :: "'u Defaults \<Rightarrow> 'u ConfigManager option \<times> go_error option" where
  "NewConfigManager d =
     (if AppName d = [] then
        (None, Some (NewError ''initialization'' []
                       (Some (PlainError ''AppName must be specified''))))
      else if DefaultConfigValues d = None then
        (None, Some (NewError ''initialization'' []
                       (Some (PlainError ''DefaultConfigValues must be specified''))))
      else (Some \<lparr>defaults = d, filePath = []\<rparr>, None))"

definition buildPath ::
  "'w platform \<Rightarrow> 'u ConfigManager \<Rightarrow> ('w, 'u) state \<Rightarrow> (go_error + string) \<times> ('w, 'u) state" where
  "buildPath P cm s =
     (case call_UserHomeDir P s of
        (Inl err, s1) \<Rightarrow> (Inl err, s1)
      | (Inr home, s1) \<Rightarrow>
          (Inr (filepath_Join P [home, ''.config'', AppName (defaults cm), ''default.conf'']), s1))"

text \<open>The permissions \<open>0755\<close> and \<open>0644\<close> are 493 and 420.\<close>

definition ensureConfigFile ::
  "'w platform \<Rightarrow> 'u ConfigManager \<Rightarrow> string \<Rightarrow> ('w, 'u) state
     \<Rightarrow> go_error option result \<times> ('w, 'u) state" where
  "ensureConfigFile P cm path s =
     (case call_Stat P path s of
        (None, s1) \<Rightarrow> (Returns None, s1)
      | (Some _, s1) \<Rightarrow>
          (case call_MkdirAll P (filepath_Dir P path) 493 s1 of
             (Some err, s2) \<Rightarrow>
               (Returns (Some (NewError ''create config directory'' (filepath_Dir P path) (Some err))), s2)
           | (None, s2) \<Rightarrow>
               (case DefaultConfigValues (defaults cm) of
                  None \<Rightarrow> (Panics, s2)
                | Some dser \<Rightarrow>
                    (case call_Marshal dser s2 of
                       ((data, Some err), s3) \<Rightarrow>
                         (Returns (Some (NewError ''marshal default config'' path (Some err))), s3)
                     | ((data, None), s3) \<Rightarrow>
                         (case call_WriteFile P path data 420 s3 of
                            (Some err, s4) \<Rightarrow>
                              (Returns (Some (NewError ''create default config'' path (Some err))), s4)
                          | (None, s4) \<Rightarrow> (Returns None, s4))))))"

text \<open>
  \<open>LoadConfig\<close> returns its error and the manager, whose field the last statement
  assigns. The parameter \<open>filePath\<close> is written \<open>path\<close>.
\<close>

definition LoadConfig ::
  "'w platform \<Rightarrow> 'u ConfigManager \<Rightarrow> string \<Rightarrow> 'u Serializer option \<Rightarrow> ('w, 'u) state
     \<Rightarrow> (go_error option result \<times> 'u ConfigManager) \<times> ('w, 'u) state" where
  "LoadConfig P cm path target s =
     (if path = [] then ((Returns (Some (PlainError ''no path provided'')), cm), s)
      else
        (case ensureConfigFile P cm path s of
           (Panics, s1) \<Rightarrow> ((Panics, cm), s1)
         | (Returns (Some err), s1) \<Rightarrow> ((Returns (Some err), cm), s1)
         | (Returns None, s1) \<Rightarrow>
             (case call_ReadFile P path s1 of
                (Inl err, s2) \<Rightarrow>
                  ((Returns (Some (NewError ''read config'' path (Some err))), cm), s2)
              | (Inr bt, s2) \<Rightarrow>
                  (case target of
                     None \<Rightarrow> ((Panics, cm), s2)
                   | Some tser \<Rightarrow>
                       (case call_Unmarshal tser bt s2 of
                          (Some err, s3) \<Rightarrow>
                            ((Returns (Some (NewError ''unmarshal config'' path (Some err))), cm), s3)
                        | (None, s3) \<Rightarrow>
                            ((Returns None, cm\<lparr>filePath := path\<rparr>), s3))))))"

definition SaveConfig ::
  "'w platform \<Rightarrow> 'u ConfigManager \<Rightarrow> 'u Serializer option \<Rightarrow> ('w, 'u) state
     \<Rightarrow> go_error option result \<times> ('w, 'u) state" where
  "SaveConfig P cm config s =
     (case config of
        None \<Rightarrow> (Panics, s)
      | Some cser \<Rightarrow>
          (case call_Marshal cser s of
             ((bt, Some err), s1) \<Rightarrow> (Returns (Some (NewError ''marshal config'' [] (Some err))), s1)
           | ((bt, None), s1) \<Rightarrow>
               (case call_WriteFile P (filePath cm) bt 420 s1 of
                  (Some err, s2) \<Rightarrow>
                    (Returns (Some (NewError ''save config'' (filePath cm) (Some err))), s2)
                | (None, s2) \<Rightarrow> (Returns None, s2))))"

section \<open>Sequences of public calls\<close>

text \<open>
  A client of the package holds a manager and calls the public operations one after the
  other. \<open>New\<close> replaces the manager when the constructor returns one. A panic ends
  the sequence.
\<close>

datatype 'u call =
    New "'u Defaults"
  | Load string "'u Serializer option"
  | Save "'u Serializer option"

fun is_Load :: "'u call \<Rightarrow> bool" where
  "is_Load (Load _ _) = True"
| "is_Load _ = False"

fun run ::
  "'w platform \<Rightarrow> 'u ConfigManager \<Rightarrow> 'u call list \<Rightarrow> ('w, 'u) state
     \<Rightarrow> go_error option result list \<times> 'u ConfigManager \<times> ('w, 'u) state" where
  "run P cm [] s = ([], cm, s)"
| "run P cm (New d # cs) s =
     (case NewConfigManager d of
        (Some cm', err) \<Rightarrow> (case run P cm' cs s of (rs, fin) \<Rightarrow> (Returns err # rs, fin))
      | (None, err) \<Rightarrow> (case run P cm cs s of (rs, fin) \<Rightarrow> (Returns err # rs, fin)))"
| "run P cm (Load path target # cs) s =
     (case LoadConfig P cm path target s of
        ((Panics, cm'), s') \<Rightarrow> ([Panics], cm', s')
      | ((Returns err, cm'), s') \<Rightarrow>
          (case run P cm' cs s' of (rs, fin) \<Rightarrow> (Returns err # rs, fin)))"
| "run P cm (Save config # cs) s =
     (case SaveConfig P cm config s of
        (Panics, s') \<Rightarrow> ([Panics], cm, s')
      | (Returns err, s') \<Rightarrow>
          (case run P cm cs s' of (rs, fin) \<Rightarrow> (Returns err # rs, fin)))"

fun is_WriteFile :: "event \<Rightarrow> bool" where
  "is_WriteFile (EvWriteFile _ _ _) = True"
| "is_WriteFile _ = False"

text \<open>
  \<open>extends_without_home before after\<close>: the trace \<open>after\<close> continues \<open>before\<close>, and
  \<open>os.UserHomeDir\<close> is not among the calls added.
\<close>

definition extends_without_home :: "event list \<Rightarrow> event list \<Rightarrow> bool" where
  "extends_without_home before after =
     (take (length before) after = before \<and> EvUserHomeDir \<notin> set (drop (length before) after))"

section \<open>A small file system and the serializer of the tests\<close>

text \<open>
  An instance of the environment, for running the operations on concrete inputs: regular
  files with their content, directories, and the paths at which \<open>os.Stat\<close>,
  \<open>os.MkdirAll\<close> and \<open>os.WriteFile\<close> are refused. \<open>sim_Dir\<close> and \<open>sim_Join\<close> are
  \<open>filepath.Dir\<close> and \<open>filepath.Join\<close> on paths that are clean already.
\<close>

record simfs =
  sim_files :: "(string \<times> bytes) list"
  sim_dirs :: "string list"
  sim_stat_denied :: "string list"
  sim_mkdir_denied :: "string list"
  sim_write_denied :: "string list"
  sim_home :: "string option"

definition sim_Stat :: "string \<Rightarrow> simfs \<Rightarrow> go_error option" where
  "sim_Stat p w =
     (if p \<in> set (sim_stat_denied w) then Some (PlainError (''stat '' @ p @ '': permission denied''))
      else case map_of (sim_files w) p of
             Some _ \<Rightarrow> None
           | None \<Rightarrow> if p \<in> set (sim_dirs w) then None
                     else Some (PlainError (''stat '' @ p @ '': no such file or directory'')))"

definition sim_MkdirAll :: "string \<Rightarrow> nat \<Rightarrow> simfs \<Rightarrow> go_error option \<times> simfs" where
  "sim_MkdirAll d perm w =
     (if d \<in> set (sim_mkdir_denied w) then (Some (PlainError (''mkdir '' @ d @ '': permission denied'')), w)
      else case map_of (sim_files w) d of
             Some _ \<Rightarrow> (Some (PlainError (''mkdir '' @ d @ '': not a directory'')), w)
           | None \<Rightarrow> (None, if d \<in> set (sim_dirs w) then w else w\<lparr>sim_dirs := d # sim_dirs w\<rparr>))"

definition sim_WriteFile :: "string \<Rightarrow> bytes \<Rightarrow> nat \<Rightarrow> simfs \<Rightarrow> go_error option \<times> simfs" where
  "sim_WriteFile p data perm w =
     (if p = [] then (Some (PlainError ''open : no such file or directory''), w)
      else if p \<in> set (sim_write_denied w) then
        (Some (PlainError (''open '' @ p @ '': permission denied'')), w)
      else if p \<in> set (sim_dirs w) then
        (Some (PlainError (''open '' @ p @ '': is a directory'')), w)
      else (None, w\<lparr>sim_files := (p, data) # filter (\<lambda>e. fst e \<noteq> p) (sim_files w)\<rparr>))"

definition sim_ReadFile :: "string \<Rightarrow> simfs \<Rightarrow> go_error + bytes" where
  "sim_ReadFile p w =
     (case map_of (sim_files w) p of
        Some d \<Rightarrow> Inr d
      | None \<Rightarrow> if p \<in> set (sim_dirs w) then Inl (PlainError (''read '' @ p @ '': is a directory''))
                else Inl (PlainError (''open '' @ p @ '': no such file or directory'')))"

definition sim_UserHomeDir :: "simfs \<Rightarrow> go_error + string" where
  "sim_UserHomeDir w =
     (case sim_home w of None \<Rightarrow> Inl (PlainError ''$HOME is not defined'') | Some h \<Rightarrow> Inr h)"

definition sim_Dir :: "string \<Rightarrow> string" where
  "sim_Dir p =
     (let d = rev (dropWhile (\<lambda>c. c \<noteq> CHR ''/'') (rev p))
      in if d = [] then ''.'' else if d = ''/'' then ''/'' else butlast d)"

definition sim_Join :: "string list \<Rightarrow> string" where
  "sim_Join xs =
     (case filter (\<lambda>x. x \<noteq> []) xs of
        [] \<Rightarrow> []
      | y # ys \<Rightarrow> foldl (\<lambda>a b. a @ ''/'' @ b) y ys)"

definition sim :: "simfs platform" where
  "sim = \<lparr>os_Stat = sim_Stat, os_MkdirAll = sim_MkdirAll, os_WriteFile = sim_WriteFile,
          os_ReadFile = sim_ReadFile, os_UserHomeDir = sim_UserHomeDir,
          filepath_Dir = sim_Dir, filepath_Join = sim_Join\<rparr>"

text \<open>
  \<open>MockSerializer\<close> of the tests: \<open>Marshal\<close> returns the two fields \<open>MarshalData\<close> and
  \<open>MarshalErr\<close>, \<open>Unmarshal\<close> counts its calls in \<open>UnmarshalCalls\<close> (the caller's state
  gives the counter of each object) and returns \<open>UnmarshalErr\<close>.
\<close>

definition MockSerializer ::
  "nat \<Rightarrow> bytes \<Rightarrow> go_error option \<Rightarrow> go_error option \<Rightarrow> (nat \<Rightarrow> nat) Serializer" where
  "MockSerializer i MarshalData MarshalErr UnmarshalErr =
     \<lparr>ident = i,
      Marshal = (\<lambda>h. ((MarshalData, MarshalErr), h)),
      Unmarshal = (\<lambda>data h. (UnmarshalErr, h(i := Suc (h i))))\<rparr>"

definition sim_state :: "simfs \<Rightarrow> (simfs, nat \<Rightarrow> nat) state" where
  "sim_state w = \<lparr>fs = w, heap = (\<lambda>_. 0), trace = []\<rparr>"

definition fs_fresh :: simfs where
  "fs_fresh = \<lparr>sim_files = [], sim_dirs = [], sim_stat_denied = [], sim_mkdir_denied = [],
               sim_write_denied = [], sim_home = Some ''/home/user''\<rparr>"

definition fs_existing :: simfs where
  "fs_existing = fs_fresh\<lparr>sim_files := [(''/etc/app.conf'', ''existing config'')],
                          sim_dirs := [''/etc'']\<rparr>"

definition fs_directory :: simfs where
  "fs_directory = fs_fresh\<lparr>sim_dirs := [''/etc/app.conf'', ''/etc'']\<rparr>"

text \<open>
  \<open>fs_hidden\<close>: the file exists, and the permissions refuse both the stat and the
  write at its path. \<open>fs_readonly\<close>: the directory \<open>/ro\<close> exists and nothing can be
  created in it.
\<close>

definition fs_hidden :: simfs where
  "fs_hidden = fs_existing\<lparr>sim_stat_denied := [''/etc/app.conf''],
                          sim_write_denied := [''/etc/app.conf'']\<rparr>"

definition fs_readonly :: simfs where
  "fs_readonly = fs_fresh\<lparr>sim_dirs := [''/ro''], sim_mkdir_denied := [''/ro/app'']\<rparr>"

definition app_defaults :: "(nat \<Rightarrow> nat) Defaults" where
  "app_defaults =
     \<lparr>AppName = ''testapp'', DefaultConfigValues = Some (MockSerializer 1 ''config data'' None None)\<rparr>"

definition app_manager :: "(nat \<Rightarrow> nat) ConfigManager" where
  "app_manager = \<lparr>defaults = app_defaults, filePath = []\<rparr>"

section \<open>Facts about single calls\<close>

lemmas call_defs = call_Stat_def call_MkdirAll_def call_WriteFile_def call_ReadFile_def
  call_UserHomeDir_def call_Marshal_def call_Unmarshal_def

lemmas sim_defs = sim_def sim_Stat_def sim_MkdirAll_def sim_WriteFile_def sim_ReadFile_def
  sim_UserHomeDir_def sim_Dir_def sim_Join_def sim_state_def MockSerializer_def
  fs_fresh_def fs_existing_def fs_directory_def fs_hidden_def fs_readonly_def
  app_defaults_def app_manager_def

lemma ensureConfigFile_present:
  "os_Stat P path (fs s) = None \<Longrightarrow>
   ensureConfigFile P cm path s = (Returns None, s\<lparr>trace := trace s @ [EvStat path]\<rparr>)"
  by (simp add: ensureConfigFile_def call_defs)

lemma ensureConfigFile_writes:
  "length (filter is_WriteFile (drop (length (trace s)) (trace (snd (ensureConfigFile P cm path s))))) \<le> 1"
  by (auto simp add: ensureConfigFile_def call_defs split: option.splits prod.splits)

lemma LoadConfig_failure_keeps_manager:
  "LoadConfig P cm path target s = ((r, cm1), s1) \<Longrightarrow> r \<noteq> Returns None \<Longrightarrow> cm1 = cm"
  by (auto simp add: LoadConfig_def call_defs NewError_def
           split: prod.splits option.splits result.splits sum.splits if_splits)

lemma NewConfigManager_path:
  "NewConfigManager d = (Some cm, err) \<Longrightarrow> filePath cm = [] \<and> defaults cm = d \<and> err = None"
  by (auto simp add: NewConfigManager_def split: if_splits)

lemma Error_with_path:
  "path \<noteq> [] \<Longrightarrow>
   Error (ConfigError operation path (Some cause)) = ''config error: '' @ operation @ '': '' @ Error cause"
  by simp

lemma Error_without_path:
  "Error (ConfigError operation [] (Some cause)) =
     ''config error: '' @ operation @ '' '' @ [CHR 0x22, CHR 0x22] @ '': '' @ Error cause"
  by (simp add: strconv_Quote_def)

lemma LoadConfig_unmarshal_failure:
  assumes "path \<noteq> []"
    and "ensureConfigFile P cm path s = (Returns None, s1)"
    and "os_ReadFile P path (fs s1) = Inr bt"
    and "Unmarshal tser bt (heap s1) = (Some cause, h)"
  shows "fst (LoadConfig P cm path (Some tser) s) =
           (Returns (Some (ConfigError ''unmarshal config'' path (Some cause))), cm)"
  using assms by (simp add: LoadConfig_def call_defs NewError_def)

section \<open>Construction\<close>

text \<open>
  C3: with an empty application name, and with a nil default-values strategy,
  \<open>NewConfigManager\<close> returns no manager and an error, and touches no state (it takes
  none). The error is a \<open>ConfigError\<close> with operation "initialization" and empty path,
  so its rendered message is not the bare text "AppName must be specified" (or
  "DefaultConfigValues must be specified") that the test \<open>TestNewConfigManager_Validation\<close>
  compares with: that text is only the cause, which \<open>Unwrap\<close> gives.
\<close>

theorem NewConfigManager_error_message:
  "NewConfigManager \<lparr>AppName = [], DefaultConfigValues = Some (MockSerializer 1 ''config data'' None None)\<rparr> =
     (None, Some (ConfigError ''initialization'' [] (Some (PlainError ''AppName must be specified''))))
   \<and> Error (ConfigError ''initialization'' [] (Some (PlainError ''AppName must be specified''))) =
       ''config error: initialization '' @ [CHR 0x22, CHR 0x22] @ '': AppName must be specified''
   \<and> map_option Error
         (Unwrap (ConfigError ''initialization'' [] (Some (PlainError ''AppName must be specified'')))) =
       Some ''AppName must be specified''
   \<and> NewConfigManager \<lparr>AppName = ''testapp'', DefaultConfigValues = (None :: (nat \<Rightarrow> nat) Serializer option)\<rparr> =
     (None, Some (ConfigError ''initialization'' [] (Some (PlainError ''DefaultConfigValues must be specified''))))
   \<and> Error (ConfigError ''initialization'' [] (Some (PlainError ''DefaultConfigValues must be specified''))) =
       ''config error: initialization '' @ [CHR 0x22, CHR 0x22] @ '': DefaultConfigValues must be specified''"
  by (simp add: NewConfigManager_def NewError_def strconv_Quote_def Unwrap_def)

section \<open>Loading\<close>

text \<open>
  C1: a load of the existing file \<open>/etc/app.conf\<close> whose decode fails with "parse error"
  returns a \<open>ConfigError\<close> with operation "unmarshal config" and the path of the call.
  Its rendered message leaves the path out, since \<open>Error\<close> prints the path only when
  it is empty: the message is not the text with the quoted path that the test
  \<open>TestLoadConfig_InvalidConfig\<close> expects.
\<close>

theorem LoadConfig_unmarshal_error_message:
  "LoadConfig sim app_manager ''/etc/app.conf''
       (Some (MockSerializer 2 [] None (Some (PlainError ''parse error'')))) (sim_state fs_existing) =
     ((Returns (Some (ConfigError ''unmarshal config'' ''/etc/app.conf'' (Some (PlainError ''parse error'')))),
       app_manager),
      \<lparr>fs = fs_existing, heap = (\<lambda>_. 0)(2 := 1),
       trace = [EvStat ''/etc/app.conf'', EvReadFile ''/etc/app.conf'',
                EvUnmarshal 2 ''existing config'']\<rparr>)
   \<and> Error (ConfigError ''unmarshal config'' ''/etc/app.conf'' (Some (PlainError ''parse error''))) =
       ''config error: unmarshal config: parse error''
   \<and> Error (ConfigError ''unmarshal config'' ''/etc/app.conf'' (Some (PlainError ''parse error''))) \<noteq>
       ''config error: unmarshal config '' @ [CHR 0x22] @ ''/etc/app.conf'' @ [CHR 0x22] @ '': parse error''"
  by (simp add: LoadConfig_def ensureConfigFile_def call_defs NewError_def sim_defs)

text \<open>
  C2: for every target, also nil, \<open>LoadConfig\<close> with the empty path returns the plain
  error "no path provided", which is no \<open>ConfigError\<close>; no call leaves the package, the
  file system is the same, and the manager keeps its path.
\<close>

theorem LoadConfig_empty_path:
  "LoadConfig P cm [] target s = ((Returns (Some (PlainError ''no path provided'')), cm), s)"
  by (simp add: LoadConfig_def)

text \<open>
  C4, with the conditions it needs: a load with a non-empty path at which \<open>os.Stat\<close>
  fails (no entry is seen there) and whose parent directory can be created goes on, in
  this order, to encode the default-values strategy (once), to write exactly the encoded
  bytes to the path, to read the file, and to decode (once, with the bytes read from the
  file written), as far as these steps succeed. A failed encode gives the error
  "marshal default config", and then nothing is written and nothing decoded; a failed
  write gives "create default config", a failed read "read config", and in both nothing
  is decoded; a nil default-values strategy, or a nil target after the read, panics.
  The file system at the end is the one the last of \<open>os.MkdirAll\<close> and
  \<open>os.WriteFile\<close> left.
\<close>

theorem LoadConfig_creates_default_file:
  assumes "path \<noteq> []"
    and "os_Stat P path (fs s) = Some e0"
    and "os_MkdirAll P (filepath_Dir P path) 493 (fs s) = (None, w1)"
  shows "LoadConfig P cm path target s =
     (case DefaultConfigValues (defaults cm) of
        None \<Rightarrow>
          ((Panics, cm),
           s\<lparr>fs := w1, trace := trace s @ [EvStat path, EvMkdirAll (filepath_Dir P path) 493]\<rparr>)
      | Some dser \<Rightarrow>
     (case Marshal dser (heap s) of
        ((data, Some err), h1) \<Rightarrow>
          ((Returns (Some (ConfigError ''marshal default config'' path (Some err))), cm),
           s\<lparr>fs := w1, heap := h1,
             trace := trace s @ [EvStat path, EvMkdirAll (filepath_Dir P path) 493,
                                 EvMarshal (ident dser)]\<rparr>)
      | ((data, None), h1) \<Rightarrow>
          (case os_WriteFile P path data 420 w1 of
             (Some err, w2) \<Rightarrow>
               ((Returns (Some (ConfigError ''create default config'' path (Some err))), cm),
                s\<lparr>fs := w2, heap := h1,
                  trace := trace s @ [EvStat path, EvMkdirAll (filepath_Dir P path) 493,
                                      EvMarshal (ident dser), EvWriteFile path data 420]\<rparr>)
           | (None, w2) \<Rightarrow>
               (case os_ReadFile P path w2 of
                  Inl err \<Rightarrow>
                    ((Returns (Some (ConfigError ''read config'' path (Some err))), cm),
                     s\<lparr>fs := w2, heap := h1,
                       trace := trace s @ [EvStat path, EvMkdirAll (filepath_Dir P path) 493,
                                           EvMarshal (ident dser), EvWriteFile path data 420,
                                           EvReadFile path]\<rparr>)
                | Inr bt \<Rightarrow>
                    (case target of
                       None \<Rightarrow>
                         ((Panics, cm),
                          s\<lparr>fs := w2, heap := h1,
                            trace := trace s @ [EvStat path, EvMkdirAll (filepath_Dir P path) 493,
                                                EvMarshal (ident dser), EvWriteFile path data 420,
                                                EvReadFile path]\<rparr>)
                     | Some tser \<Rightarrow>
                         (case Unmarshal tser bt h1 of
                            (uerr, h2) \<Rightarrow>
                              ((case uerr of
                                  None \<Rightarrow> (Returns None, cm\<lparr>filePath := path\<rparr>)
                                | Some err \<Rightarrow>
                                    (Returns (Some (ConfigError ''unmarshal config'' path (Some err))), cm)),
                               s\<lparr>fs := w2, heap := h2,
                                 trace := trace s @ [EvStat path, EvMkdirAll (filepath_Dir P path) 493,
                                                     EvMarshal (ident dser), EvWriteFile path data 420,
                                                     EvReadFile path,
                                                     EvUnmarshal (ident tser) bt]\<rparr>)))))))"
  using assms
  by (simp add: LoadConfig_def ensureConfigFile_def call_defs NewError_def
           split: option.splits prod.splits sum.splits)

text \<open>
  The first load of the tests: no file at \<open>/etc/app.conf\<close>; the file is written with
  "config data", and the target decodes "config data".
\<close>

theorem LoadConfig_creates_default_file_witness:
  "LoadConfig sim app_manager ''/etc/app.conf'' (Some (MockSerializer 2 [] None None))
       (sim_state fs_fresh) =
     ((Returns None, app_manager\<lparr>filePath := ''/etc/app.conf''\<rparr>),
      \<lparr>fs = fs_fresh\<lparr>sim_files := [(''/etc/app.conf'', ''config data'')], sim_dirs := [''/etc'']\<rparr>,
       heap = (\<lambda>_. 0)(2 := 1),
       trace = [EvStat ''/etc/app.conf'', EvMkdirAll ''/etc'' 493, EvMarshal 1,
                EvWriteFile ''/etc/app.conf'' ''config data'' 420, EvReadFile ''/etc/app.conf'',
                EvUnmarshal 2 ''config data'']\<rparr>)"
proof -
  have h1: "''/etc/app.conf'' \<noteq> []"
    by simp
  have h2: "os_Stat sim ''/etc/app.conf'' (fs (sim_state fs_fresh)) =
              Some (PlainError ''stat /etc/app.conf: no such file or directory'')"
    by (simp add: sim_defs)
  have h3: "os_MkdirAll sim (filepath_Dir sim ''/etc/app.conf'') 493 (fs (sim_state fs_fresh)) =
              (None, fs_fresh\<lparr>sim_dirs := [''/etc'']\<rparr>)"
    by (simp add: sim_defs)
  from LoadConfig_creates_default_file
         [OF h1 h2 h3, where cm = app_manager and target = "Some (MockSerializer 2 [] None None)"]
  show ?thesis
    by (simp add: sim_defs)
qed

text \<open>
  The success of encode is needed: at a path with no entry and a parent that can be
  created, an encode that fails ends the load. Nothing is written, the path has no entry
  afterwards, and decode is not called.
\<close>

theorem LoadConfig_encode_failure_creates_nothing:
  "sim_Stat ''/etc/app.conf'' fs_fresh = Some (PlainError ''stat /etc/app.conf: no such file or directory'')
   \<and> fst (sim_MkdirAll (sim_Dir ''/etc/app.conf'') 493 fs_fresh) = None
   \<and> LoadConfig sim
        \<lparr>defaults = \<lparr>AppName = ''testapp'',
                     DefaultConfigValues = Some (MockSerializer 1 [] (Some (PlainError ''encode failed'')) None)\<rparr>,
         filePath = []\<rparr>
        ''/etc/app.conf'' (Some (MockSerializer 2 [] None None)) (sim_state fs_fresh) =
       ((Returns (Some (ConfigError ''marshal default config'' ''/etc/app.conf''
                          (Some (PlainError ''encode failed'')))),
         \<lparr>defaults = \<lparr>AppName = ''testapp'',
                     DefaultConfigValues = Some (MockSerializer 1 [] (Some (PlainError ''encode failed'')) None)\<rparr>,
          filePath = []\<rparr>),
        \<lparr>fs = fs_fresh\<lparr>sim_dirs := [''/etc'']\<rparr>, heap = (\<lambda>_. 0),
         trace = [EvStat ''/etc/app.conf'', EvMkdirAll ''/etc'' 493, EvMarshal 1]\<rparr>)
   \<and> sim_Stat ''/etc/app.conf'' (fs_fresh\<lparr>sim_dirs := [''/etc'']\<rparr>) =
        Some (PlainError ''stat /etc/app.conf: no such file or directory'')"
  by (simp add: LoadConfig_def ensureConfigFile_def call_defs NewError_def sim_defs)

text \<open>
  C5, with the condition it needs: at a non-empty path where \<open>os.Stat\<close> succeeds (an
  entry is seen there), every load calls stat and read and nothing else before decode;
  the default-values strategy is never encoded and the file system is never changed.
  When the read succeeds and the target is not nil, decode is called exactly once, with
  the bytes read; when the read fails the error is "read config" and decode is not
  called; a nil target panics after the read.
  \<open>ensureConfigFile\<close> at such a path is one stat and nothing else, so calling it twice
  creates nothing; and after any first call, a second call at a path where stat then
  succeeds is one stat, the two calls together writing the file at most once.
\<close>

theorem LoadConfig_existing_entry:
  assumes "path \<noteq> []"
    and "os_Stat P path (fs s) = None"
  shows "LoadConfig P cm path target s =
           (case os_ReadFile P path (fs s) of
              Inl err \<Rightarrow>
                ((Returns (Some (ConfigError ''read config'' path (Some err))), cm),
                 s\<lparr>trace := trace s @ [EvStat path, EvReadFile path]\<rparr>)
            | Inr bt \<Rightarrow>
                (case target of
                   None \<Rightarrow> ((Panics, cm), s\<lparr>trace := trace s @ [EvStat path, EvReadFile path]\<rparr>)
                 | Some tser \<Rightarrow>
                     (case Unmarshal tser bt (heap s) of
                        (uerr, h) \<Rightarrow>
                          ((case uerr of
                              None \<Rightarrow> (Returns None, cm\<lparr>filePath := path\<rparr>)
                            | Some err \<Rightarrow>
                                (Returns (Some (ConfigError ''unmarshal config'' path (Some err))), cm)),
                           s\<lparr>heap := h,
                             trace := trace s @ [EvStat path, EvReadFile path,
                                                 EvUnmarshal (ident tser) bt]\<rparr>))))
         \<and> ensureConfigFile P cm path s = (Returns None, s\<lparr>trace := trace s @ [EvStat path]\<rparr>)
         \<and> ensureConfigFile P cm path (snd (ensureConfigFile P cm path s)) =
             (Returns None, s\<lparr>trace := trace s @ [EvStat path, EvStat path]\<rparr>)
         \<and> (\<forall>s0 s1. snd (ensureConfigFile P cm path s0) = s1 \<and> os_Stat P path (fs s1) = None \<longrightarrow>
               ensureConfigFile P cm path s1 = (Returns None, s1\<lparr>trace := trace s1 @ [EvStat path]\<rparr>)
               \<and> length (filter is_WriteFile (drop (length (trace s0))
                    (trace (snd (ensureConfigFile P cm path s1))))) \<le> 1)"
proof -
  have load: "LoadConfig P cm path target s =
           (case os_ReadFile P path (fs s) of
              Inl err \<Rightarrow>
                ((Returns (Some (ConfigError ''read config'' path (Some err))), cm),
                 s\<lparr>trace := trace s @ [EvStat path, EvReadFile path]\<rparr>)
            | Inr bt \<Rightarrow>
                (case target of
                   None \<Rightarrow> ((Panics, cm), s\<lparr>trace := trace s @ [EvStat path, EvReadFile path]\<rparr>)
                 | Some tser \<Rightarrow>
                     (case Unmarshal tser bt (heap s) of
                        (uerr, h) \<Rightarrow>
                          ((case uerr of
                              None \<Rightarrow> (Returns None, cm\<lparr>filePath := path\<rparr>)
                            | Some err \<Rightarrow>
                                (Returns (Some (ConfigError ''unmarshal config'' path (Some err))), cm)),
                           s\<lparr>heap := h,
                             trace := trace s @ [EvStat path, EvReadFile path,
                                                 EvUnmarshal (ident tser) bt]\<rparr>))))"
    using assms
    by (simp add: LoadConfig_def ensureConfigFile_present call_defs NewError_def
             split: option.splits prod.splits sum.splits)
  have once: "ensureConfigFile P cm path s = (Returns None, s\<lparr>trace := trace s @ [EvStat path]\<rparr>)"
    using assms(2) by (rule ensureConfigFile_present)
  have twice: "ensureConfigFile P cm path (snd (ensureConfigFile P cm path s)) =
             (Returns None, s\<lparr>trace := trace s @ [EvStat path, EvStat path]\<rparr>)"
    using assms(2) by (simp add: ensureConfigFile_present)
  have gen: "ensureConfigFile P cm path s1 = (Returns None, s1\<lparr>trace := trace s1 @ [EvStat path]\<rparr>)
               \<and> length (filter is_WriteFile (drop (length (trace s0))
                    (trace (snd (ensureConfigFile P cm path s1))))) \<le> 1"
    if "snd (ensureConfigFile P cm path s0) = s1" and "os_Stat P path (fs s1) = None" for s0 s1
  proof -
    have a: "ensureConfigFile P cm path s1 = (Returns None, s1\<lparr>trace := trace s1 @ [EvStat path]\<rparr>)"
      using that(2) by (rule ensureConfigFile_present)
    have "length (filter is_WriteFile (drop (length (trace s0)) (trace s1 @ [EvStat path]))) \<le> 1"
      using that(1) ensureConfigFile_writes [of s0 P cm path]
      by (auto simp add: ensureConfigFile_def call_defs split: option.splits prod.splits)
    with a show ?thesis by simp
  qed
  from load once twice gen show ?thesis by blast
qed

text \<open>
  The existing file of the tests is decoded as it is; and on the empty file system a
  second \<open>ensureConfigFile\<close> after the one that created the file is one stat.
\<close>

theorem LoadConfig_existing_entry_witness:
  "LoadConfig sim app_manager ''/etc/app.conf'' (Some (MockSerializer 2 [] None None))
       (sim_state fs_existing) =
     ((Returns None, app_manager\<lparr>filePath := ''/etc/app.conf''\<rparr>),
      \<lparr>fs = fs_existing, heap = (\<lambda>_. 0)(2 := 1),
       trace = [EvStat ''/etc/app.conf'', EvReadFile ''/etc/app.conf'',
                EvUnmarshal 2 ''existing config'']\<rparr>)
   \<and> ensureConfigFile sim app_manager ''/etc/app.conf''
        (snd (ensureConfigFile sim app_manager ''/etc/app.conf'' (sim_state fs_fresh))) =
       (Returns None,
        \<lparr>fs = fs_fresh\<lparr>sim_files := [(''/etc/app.conf'', ''config data'')], sim_dirs := [''/etc'']\<rparr>,
         heap = (\<lambda>_. 0),
         trace = [EvStat ''/etc/app.conf'', EvMkdirAll ''/etc'' 493, EvMarshal 1,
                  EvWriteFile ''/etc/app.conf'' ''config data'' 420, EvStat ''/etc/app.conf'']\<rparr>)"
proof -
  have h1: "''/etc/app.conf'' \<noteq> []"
    by simp
  have h2: "os_Stat sim ''/etc/app.conf'' (fs (sim_state fs_existing)) = None"
    by (simp add: sim_defs)
  note t = LoadConfig_existing_entry
             [OF h1 h2, where cm = app_manager and target = "Some (MockSerializer 2 [] None None)"]
  have first: "snd (ensureConfigFile sim app_manager ''/etc/app.conf'' (sim_state fs_fresh)) =
      \<lparr>fs = fs_fresh\<lparr>sim_files := [(''/etc/app.conf'', ''config data'')], sim_dirs := [''/etc'']\<rparr>,
       heap = (\<lambda>_. 0),
       trace = [EvStat ''/etc/app.conf'', EvMkdirAll ''/etc'' 493, EvMarshal 1,
                EvWriteFile ''/etc/app.conf'' ''config data'' 420]\<rparr>"
    by (simp add: ensureConfigFile_def call_defs sim_defs)
  have stat: "os_Stat sim ''/etc/app.conf''
      (fs \<lparr>fs = fs_fresh\<lparr>sim_files := [(''/etc/app.conf'', ''config data'')], sim_dirs := [''/etc'']\<rparr>,
           heap = (\<lambda>_. 0) :: nat \<Rightarrow> nat,
           trace = [EvStat ''/etc/app.conf'', EvMkdirAll ''/etc'' 493, EvMarshal 1,
                    EvWriteFile ''/etc/app.conf'' ''config data'' 420]\<rparr>) = None"
    by (simp add: sim_defs)
  from t have a: "LoadConfig sim app_manager ''/etc/app.conf'' (Some (MockSerializer 2 [] None None))
       (sim_state fs_existing) =
     ((Returns None, app_manager\<lparr>filePath := ''/etc/app.conf''\<rparr>),
      \<lparr>fs = fs_existing, heap = (\<lambda>_. 0)(2 := 1),
       trace = [EvStat ''/etc/app.conf'', EvReadFile ''/etc/app.conf'',
                EvUnmarshal 2 ''existing config'']\<rparr>)"
    by (simp add: sim_defs)
  note gen = t [THEN conjunct2, THEN conjunct2, THEN conjunct2, rule_format, OF conjI,
                OF first stat, THEN conjunct1]
  from gen have b: "ensureConfigFile sim app_manager ''/etc/app.conf''
        (snd (ensureConfigFile sim app_manager ''/etc/app.conf'' (sim_state fs_fresh))) =
       (Returns None,
        \<lparr>fs = fs_fresh\<lparr>sim_files := [(''/etc/app.conf'', ''config data'')], sim_dirs := [''/etc'']\<rparr>,
         heap = (\<lambda>_. 0),
         trace = [EvStat ''/etc/app.conf'', EvMkdirAll ''/etc'' 493, EvMarshal 1,
                  EvWriteFile ''/etc/app.conf'' ''config data'' 420, EvStat ''/etc/app.conf'']\<rparr>)"
    by (simp add: first)
  from a b show ?thesis by (rule conjI)
qed

text \<open>
  The success of the read is needed: the entry at the path may be a directory. Stat
  succeeds, the read fails, and decode is not called at all.
\<close>

theorem LoadConfig_directory_entry_not_decoded:
  "sim_Stat ''/etc/app.conf'' fs_directory = None
   \<and> LoadConfig sim app_manager ''/etc/app.conf'' (Some (MockSerializer 2 [] None None))
        (sim_state fs_directory) =
       ((Returns (Some (ConfigError ''read config'' ''/etc/app.conf''
                          (Some (PlainError ''read /etc/app.conf: is a directory'')))),
         app_manager),
        \<lparr>fs = fs_directory, heap = (\<lambda>_. 0),
         trace = [EvStat ''/etc/app.conf'', EvReadFile ''/etc/app.conf'']\<rparr>)"
  by (simp add: LoadConfig_def ensureConfigFile_def call_defs NewError_def sim_defs)

text \<open>
  C6: the manager after \<open>LoadConfig\<close> has the given path as its path when the call
  returns no error, and is the manager before the call otherwise (an error, or a panic);
  and the call returns no error exactly when the path is not empty and
  \<open>ensureConfigFile\<close>, the read and the decode all succeed.
\<close>

theorem LoadConfig_records_path:
  "snd (fst (LoadConfig P cm path target s)) =
     (if fst (fst (LoadConfig P cm path target s)) = Returns None then cm\<lparr>filePath := path\<rparr> else cm)
   \<and> (fst (fst (LoadConfig P cm path target s)) = Returns None \<longleftrightarrow>
        path \<noteq> [] \<and>
        (\<exists>s1 bt tser h.
           ensureConfigFile P cm path s = (Returns None, s1) \<and>
           os_ReadFile P path (fs s1) = Inr bt \<and>
           target = Some tser \<and>
           Unmarshal tser bt (heap s1) = (None, h)))"
  by (auto simp add: LoadConfig_def call_defs NewError_def
           split: prod.splits option.splits result.splits sum.splits)

text \<open>
  C9, with the steps as far as they succeed: whatever error \<open>os.Stat\<close> returns (not only
  that nothing exists), \<open>ensureConfigFile\<close> enters the creation path, and the stat error
  plays no part in the result. It calls \<open>os.MkdirAll\<close> on the parent directory; when
  that fails the result is the error "create config directory", and nothing is encoded
  or written. Otherwise the default-values strategy is encoded (a nil strategy panics);
  when encode fails the result is "marshal default config" and nothing is written.
  Otherwise \<open>os.WriteFile\<close> is called on the path with the encoded bytes, also where an
  entry exists that could not be stat-ed; the result is nil, or "create default config"
  when the write fails.
\<close>

theorem ensureConfigFile_any_stat_error_creates:
  assumes "os_Stat P path (fs s) = Some e"
  shows "ensureConfigFile P cm path s =
     (case os_MkdirAll P (filepath_Dir P path) 493 (fs s) of
        (Some err, w1) \<Rightarrow>
          (Returns (Some (ConfigError ''create config directory'' (filepath_Dir P path) (Some err))),
           s\<lparr>fs := w1, trace := trace s @ [EvStat path, EvMkdirAll (filepath_Dir P path) 493]\<rparr>)
      | (None, w1) \<Rightarrow>
          (case DefaultConfigValues (defaults cm) of
             None \<Rightarrow>
               (Panics,
                s\<lparr>fs := w1, trace := trace s @ [EvStat path, EvMkdirAll (filepath_Dir P path) 493]\<rparr>)
           | Some dser \<Rightarrow>
               (case Marshal dser (heap s) of
                  ((data, Some err), h) \<Rightarrow>
                    (Returns (Some (ConfigError ''marshal default config'' path (Some err))),
                     s\<lparr>fs := w1, heap := h,
                       trace := trace s @ [EvStat path, EvMkdirAll (filepath_Dir P path) 493,
                                           EvMarshal (ident dser)]\<rparr>)
                | ((data, None), h) \<Rightarrow>
                    (case os_WriteFile P path data 420 w1 of
                       (werr, w2) \<Rightarrow>
                         (Returns (case werr of
                                     None \<Rightarrow> None
                                   | Some err \<Rightarrow>
                                       Some (ConfigError ''create default config'' path (Some err))),
                          s\<lparr>fs := w2, heap := h,
                            trace := trace s @ [EvStat path, EvMkdirAll (filepath_Dir P path) 493,
                                                EvMarshal (ident dser),
                                                EvWriteFile path data 420]\<rparr>)))))"
  using assms
  by (simp add: ensureConfigFile_def call_defs NewError_def split: option.splits prod.splits)

text \<open>
  A file that exists but cannot be stat-ed (permission denied): the directory is there,
  the defaults are encoded, and the write is attempted at the path; the permissions
  refuse it as well, so the result is "create default config" and the file is as before.
\<close>

theorem ensureConfigFile_any_stat_error_creates_witness:
  "os_ReadFile sim ''/etc/app.conf'' fs_hidden = Inr ''existing config''
   \<and> os_Stat sim ''/etc/app.conf'' fs_hidden = Some (PlainError ''stat /etc/app.conf: permission denied'')
   \<and> ensureConfigFile sim app_manager ''/etc/app.conf'' (sim_state fs_hidden) =
       (Returns (Some (ConfigError ''create default config'' ''/etc/app.conf''
                         (Some (PlainError ''open /etc/app.conf: permission denied'')))),
        \<lparr>fs = fs_hidden, heap = (\<lambda>_. 0),
         trace = [EvStat ''/etc/app.conf'', EvMkdirAll ''/etc'' 493, EvMarshal 1,
                  EvWriteFile ''/etc/app.conf'' ''config data'' 420]\<rparr>)"
proof -
  have h1: "os_Stat sim ''/etc/app.conf'' (fs (sim_state fs_hidden)) =
              Some (PlainError ''stat /etc/app.conf: permission denied'')"
    by (simp add: sim_defs)
  from ensureConfigFile_any_stat_error_creates [OF h1, where cm = app_manager]
  show ?thesis
    by (simp add: sim_defs)
qed

text \<open>
  The creation path need not reach the write: under the read-only directory \<open>/ro\<close>
  stat fails at \<open>/ro/app/app.conf\<close>, the directory \<open>/ro/app\<close> cannot be created, and
  \<open>ensureConfigFile\<close> returns "create config directory". Nothing is encoded, nothing is
  written.
\<close>

theorem ensureConfigFile_stat_error_without_write:
  "sim_Stat ''/ro/app/app.conf'' fs_readonly =
     Some (PlainError ''stat /ro/app/app.conf: no such file or directory'')
   \<and> ensureConfigFile sim app_manager ''/ro/app/app.conf'' (sim_state fs_readonly) =
       (Returns (Some (ConfigError ''create config directory'' ''/ro/app''
                         (Some (PlainError ''mkdir /ro/app: permission denied'')))),
        \<lparr>fs = fs_readonly, heap = (\<lambda>_. 0),
         trace = [EvStat ''/ro/app/app.conf'', EvMkdirAll ''/ro/app'' 493]\<rparr>)"
  by (simp add: ensureConfigFile_def call_defs NewError_def sim_defs)

section \<open>Saving\<close>

text \<open>
  C7: \<open>SaveConfig\<close> with a strategy that is not nil encodes first. When encode fails the
  result is a \<open>ConfigError\<close> with operation "marshal config" and empty path, and
  \<open>os.WriteFile\<close> is not called: the file system is the same. When encode succeeds the
  encoded bytes are written to the manager's path with \<open>os.WriteFile\<close>, which replaces
  the content of the file; a failure of the write gives a \<open>ConfigError\<close> with operation
  "save config" and that path, and a success gives no error.
\<close>

theorem SaveConfig_encodes_then_writes:
  assumes "Marshal cser (heap s) = ((bt, merr), h)"
    and "os_WriteFile P (filePath cm) bt 420 (fs s) = (werr, w)"
  shows "SaveConfig P cm (Some cser) s =
     (case merr of
        Some err \<Rightarrow>
          (Returns (Some (ConfigError ''marshal config'' [] (Some err))),
           s\<lparr>heap := h, trace := trace s @ [EvMarshal (ident cser)]\<rparr>)
      | None \<Rightarrow>
          (Returns (case werr of
                      None \<Rightarrow> None
                    | Some err \<Rightarrow> Some (ConfigError ''save config'' (filePath cm) (Some err))),
           s\<lparr>fs := w, heap := h,
             trace := trace s @ [EvMarshal (ident cser), EvWriteFile (filePath cm) bt 420]\<rparr>))"
  using assms
  by (simp add: SaveConfig_def call_defs NewError_def split: option.splits)

text \<open>A manager that loaded \<open>/etc/app.conf\<close> saves "new config" over "existing config".\<close>

theorem SaveConfig_encodes_then_writes_witness:
  "SaveConfig sim (app_manager\<lparr>filePath := ''/etc/app.conf''\<rparr>)
       (Some (MockSerializer 3 ''new config'' None None)) (sim_state fs_existing) =
     (Returns None,
      \<lparr>fs = fs_existing\<lparr>sim_files := [(''/etc/app.conf'', ''new config'')]\<rparr>, heap = (\<lambda>_. 0),
       trace = [EvMarshal 3, EvWriteFile ''/etc/app.conf'' ''new config'' 420]\<rparr>)"
proof -
  have h1: "Marshal (MockSerializer 3 ''new config'' None None) (heap (sim_state fs_existing)) =
              ((''new config'', None), (\<lambda>_. 0))"
    by (simp add: sim_defs)
  have h2: "os_WriteFile sim (filePath (app_manager\<lparr>filePath := ''/etc/app.conf''\<rparr>)) ''new config'' 420
              (fs (sim_state fs_existing)) =
              (None, fs_existing\<lparr>sim_files := [(''/etc/app.conf'', ''new config'')]\<rparr>)"
    by (simp add: sim_defs)
  from SaveConfig_encodes_then_writes [OF h1 h2]
  show ?thesis
    by (simp add: sim_defs)
qed

section \<open>Sequences of calls\<close>

lemma failed_loads_keep_manager:
  "\<forall>c\<in>set calls. is_Load c \<Longrightarrow> run P cm calls s = (rs, cm', s') \<Longrightarrow>
   Returns None \<notin> set rs \<Longrightarrow> cm' = cm"
proof (induction calls arbitrary: cm s rs)
  case Nil
  then show ?case by simp
next
  case (Cons c cs)
  from Cons.prems(1) obtain path target where c: "c = Load path target"
    by (cases c) auto
  obtain r cm1 s1 where l: "LoadConfig P cm path target s = ((r, cm1), s1)"
    by (metis prod.exhaust)
  show ?case
  proof (cases r)
    case Panics
    with l c Cons.prems(2) have "cm' = cm1" by simp
    moreover from l Panics have "cm1 = cm"
      by (auto dest: LoadConfig_failure_keeps_manager)
    ultimately show ?thesis by simp
  next
    case (Returns err)
    obtain rs1 fin where r1: "run P cm1 cs s1 = (rs1, fin)"
      by (metis prod.exhaust)
    with l c Returns Cons.prems(2) have rs: "rs = Returns err # rs1" and fin: "fin = (cm', s')"
      by auto
    from rs Cons.prems(3) have no: "Returns None \<notin> set rs1"
      by simp
    from rs Cons.prems(3) have "err \<noteq> None"
      by (cases err) simp_all
    with Returns have "r \<noteq> Returns None"
      by simp
    with l have "cm1 = cm"
      by (rule LoadConfig_failure_keeps_manager)
    moreover from Cons.prems(1) have "\<forall>c\<in>set cs. is_Load c" by simp
    from Cons.IH [OF this _ no] r1 fin have "cm' = cm1" by simp
    ultimately show ?thesis by simp
  qed
qed

text \<open>
  C10: a manager from \<open>NewConfigManager\<close>, after any loads none of which succeeded, has
  the empty path; \<open>SaveConfig\<close> on it, when encode succeeds, calls \<open>os.WriteFile\<close> with
  the empty path, and when that write fails returns a \<open>ConfigError\<close> with operation
  "save config", the empty path and the error of the write. Nothing rejects the call
  before the write.
\<close>

theorem SaveConfig_before_load:
  assumes "NewConfigManager d = (Some cm0, None)"
    and "\<forall>c\<in>set calls. is_Load c"
    and "run P cm0 calls s0 = (rs, cm, s)"
    and "Returns None \<notin> set rs"
    and "Marshal cser (heap s) = ((bt, None), h)"
    and "os_WriteFile P [] bt 420 (fs s) = (Some e, w)"
  shows "filePath cm = []
       \<and> SaveConfig P cm (Some cser) s =
           (Returns (Some (ConfigError ''save config'' [] (Some e))),
            s\<lparr>fs := w, heap := h, trace := trace s @ [EvMarshal (ident cser), EvWriteFile [] bt 420]\<rparr>)"
proof -
  from assms(2,3,4) have "cm = cm0" by (rule failed_loads_keep_manager)
  with assms(1) have p: "filePath cm = []" by (simp add: NewConfigManager_path)
  with assms(5,6) show ?thesis
    by (simp add: SaveConfig_def call_defs NewError_def)
qed

text \<open>
  A new manager, one load that fails in decode, then a save: the write to the empty path
  fails with "no such file or directory".
\<close>

theorem SaveConfig_before_load_witness:
  "SaveConfig sim app_manager (Some (MockSerializer 3 ''new config'' None None))
       \<lparr>fs = fs_existing, heap = (\<lambda>_. 0)(2 := 1),
        trace = [EvStat ''/etc/app.conf'', EvReadFile ''/etc/app.conf'',
                 EvUnmarshal 2 ''existing config'']\<rparr> =
     (Returns (Some (ConfigError ''save config'' []
                       (Some (PlainError ''open : no such file or directory'')))),
      \<lparr>fs = fs_existing, heap = (\<lambda>_. 0)(2 := 1),
       trace = [EvStat ''/etc/app.conf'', EvReadFile ''/etc/app.conf'',
                EvUnmarshal 2 ''existing config'', EvMarshal 3, EvWriteFile [] ''new config'' 420]\<rparr>)"
proof -
  let ?bad = "MockSerializer 2 [] None (Some (PlainError ''parse error''))"
  let ?s = "\<lparr>fs = fs_existing, heap = (\<lambda>_. 0)(2 := 1),
             trace = [EvStat ''/etc/app.conf'', EvReadFile ''/etc/app.conf'',
                      EvUnmarshal 2 ''existing config'']\<rparr> :: (simfs, nat \<Rightarrow> nat) state"
  let ?r = "Returns (Some (ConfigError ''unmarshal config'' ''/etc/app.conf''
                             (Some (PlainError ''parse error''))))"
  have h1: "NewConfigManager app_defaults = (Some app_manager, None)"
    by (simp add: NewConfigManager_def sim_defs)
  have h2: "\<forall>c\<in>set [Load ''/etc/app.conf'' (Some ?bad)]. is_Load c"
    by simp
  have h3: "run sim app_manager [Load ''/etc/app.conf'' (Some ?bad)] (sim_state fs_existing) =
              ([?r], app_manager, ?s)"
    by (simp add: LoadConfig_def ensureConfigFile_def call_defs NewError_def sim_defs)
  have h4: "Returns None \<notin> set [?r]"
    by simp
  have h5: "Marshal (MockSerializer 3 ''new config'' None None) (heap ?s) =
              ((''new config'', None), (\<lambda>_. 0)(2 := 1))"
    by (simp add: sim_defs)
  have h6: "os_WriteFile sim [] ''new config'' 420 (fs ?s) =
              (Some (PlainError ''open : no such file or directory''), fs_existing)"
    by (simp add: sim_defs)
  from SaveConfig_before_load [OF h1 h2 h3 h4 h5 h6]
  show ?thesis
    by (simp add: sim_defs)
qed

section \<open>The home directory\<close>

lemma extends_without_home_iff:
  "extends_without_home before after \<longleftrightarrow>
     (\<exists>evs. after = before @ evs \<and> EvUserHomeDir \<notin> set evs)"
proof
  assume a: "extends_without_home before after"
  then have "after = before @ drop (length before) after"
    by (metis extends_without_home_def append_take_drop_id)
  with a show "\<exists>evs. after = before @ evs \<and> EvUserHomeDir \<notin> set evs"
    unfolding extends_without_home_def by blast
next
  assume "\<exists>evs. after = before @ evs \<and> EvUserHomeDir \<notin> set evs"
  then show "extends_without_home before after"
    by (auto simp add: extends_without_home_def)
qed

lemma extends_without_home_refl: "extends_without_home t t"
  by (simp add: extends_without_home_def)

lemma extends_without_home_trans:
  "extends_without_home a b \<Longrightarrow> extends_without_home b c \<Longrightarrow> extends_without_home a c"
  by (auto simp add: extends_without_home_iff)

lemma calls_home:
  "call_Stat (P\<lparr>os_UserHomeDir := home\<rparr>) = call_Stat P"
  "call_MkdirAll (P\<lparr>os_UserHomeDir := home\<rparr>) = call_MkdirAll P"
  "call_WriteFile (P\<lparr>os_UserHomeDir := home\<rparr>) = call_WriteFile P"
  "call_ReadFile (P\<lparr>os_UserHomeDir := home\<rparr>) = call_ReadFile P"
  "filepath_Dir (P\<lparr>os_UserHomeDir := home\<rparr>) = filepath_Dir P"
  by (simp_all add: fun_eq_iff call_defs)

lemma ensureConfigFile_home:
  "ensureConfigFile (P\<lparr>os_UserHomeDir := home\<rparr>) cm path s = ensureConfigFile P cm path s"
  unfolding ensureConfigFile_def calls_home by (rule refl)

lemma LoadConfig_home:
  "LoadConfig (P\<lparr>os_UserHomeDir := home\<rparr>) cm path target s = LoadConfig P cm path target s"
  unfolding LoadConfig_def ensureConfigFile_home calls_home by (rule refl)

lemma SaveConfig_home:
  "SaveConfig (P\<lparr>os_UserHomeDir := home\<rparr>) cm config s = SaveConfig P cm config s"
  unfolding SaveConfig_def calls_home by (rule refl)

lemma run_home:
  "run (P\<lparr>os_UserHomeDir := home\<rparr>) cm calls s = run P cm calls s"
proof (induction calls arbitrary: cm s)
  case Nil
  show ?case by simp
next
  case (Cons c cs)
  show ?case
    by (cases c)
       (simp_all add: Cons.IH LoadConfig_home SaveConfig_home
                 split: prod.splits option.splits result.splits)
qed

lemma ensureConfigFile_no_home:
  "extends_without_home (trace s) (trace (snd (ensureConfigFile P cm path s)))"
  by (auto simp add: extends_without_home_def ensureConfigFile_def call_defs
           split: option.splits prod.splits)

lemma LoadConfig_no_home:
  "extends_without_home (trace s) (trace (snd (LoadConfig P cm path target s)))"
proof (cases "path = []")
  case True
  then show ?thesis by (simp add: LoadConfig_def extends_without_home_refl)
next
  case False
  obtain r s1 where e: "ensureConfigFile P cm path s = (r, s1)"
    by (metis prod.exhaust)
  with ensureConfigFile_no_home [of s P cm path] have a: "extends_without_home (trace s) (trace s1)"
    by simp
  have "extends_without_home (trace s1) (trace (snd (LoadConfig P cm path target s)))"
    using False e
    by (auto simp add: extends_without_home_def LoadConfig_def call_defs
             split: option.splits prod.splits result.splits sum.splits)
  with a show ?thesis by (rule extends_without_home_trans)
qed

lemma SaveConfig_no_home:
  "extends_without_home (trace s) (trace (snd (SaveConfig P cm config s)))"
  by (auto simp add: extends_without_home_def SaveConfig_def call_defs
           split: option.splits prod.splits)

lemma run_no_home:
  "extends_without_home (trace s) (trace (snd (snd (run P cm calls s))))"
proof (induction calls arbitrary: cm s)
  case Nil
  show ?case by (simp add: extends_without_home_refl)
next
  case (Cons c cs)
  show ?case
  proof (cases c)
    case (New d)
    obtain m err where n: "NewConfigManager d = (m, err)"
      by (metis prod.exhaust)
    show ?thesis
    proof (cases m)
      case None
      with New n have "trace (snd (snd (run P cm (c # cs) s))) = trace (snd (snd (run P cm cs s)))"
        by (simp split: prod.splits)
      with Cons.IH [of s cm] show ?thesis by simp
    next
      case (Some cm1)
      with New n have "trace (snd (snd (run P cm (c # cs) s))) = trace (snd (snd (run P cm1 cs s)))"
        by (simp split: prod.splits)
      with Cons.IH [of s cm1] show ?thesis by simp
    qed
  next
    case (Load path target)
    obtain r cm1 s1 where l: "LoadConfig P cm path target s = ((r, cm1), s1)"
      by (metis prod.exhaust)
    with LoadConfig_no_home [of s P cm path target] have a: "extends_without_home (trace s) (trace s1)"
      by simp
    show ?thesis
    proof (cases r)
      case Panics
      with Load l a show ?thesis by simp
    next
      case (Returns err)
      with Load l have "trace (snd (snd (run P cm (c # cs) s))) = trace (snd (snd (run P cm1 cs s1)))"
        by (simp split: prod.splits)
      with extends_without_home_trans [OF a Cons.IH [of s1 cm1]] show ?thesis by simp
    qed
  next
    case (Save config)
    obtain r s1 where l: "SaveConfig P cm config s = (r, s1)"
      by (metis prod.exhaust)
    with SaveConfig_no_home [of s P cm config] have a: "extends_without_home (trace s) (trace s1)"
      by simp
    show ?thesis
    proof (cases r)
      case Panics
      with Save l a show ?thesis by simp
    next
      case (Returns err)
      with Save l have "trace (snd (snd (run P cm (c # cs) s))) = trace (snd (snd (run P cm cs s1)))"
        by (simp split: prod.splits)
      with extends_without_home_trans [OF a Cons.IH [of s1 cm]] show ?thesis by simp
    qed
  qed
qed

text \<open>
  C8: a sequence of public calls (\<open>NewConfigManager\<close>, \<open>LoadConfig\<close>, \<open>SaveConfig\<close>) gives
  the same results, the same manager and the same final state for any two behaviours
  of \<open>os.UserHomeDir\<close>, and never calls it: the calls it adds to the trace do not
  contain it. \<open>buildPath\<close>, which no public operation calls, is what calls it.
\<close>

theorem home_directory_never_consulted:
  "run (P\<lparr>os_UserHomeDir := home1\<rparr>) cm calls s = run (P\<lparr>os_UserHomeDir := home2\<rparr>) cm calls s
   \<and> (\<exists>evs. trace (snd (snd (run P cm calls s))) = trace s @ evs \<and> EvUserHomeDir \<notin> set evs)
   \<and> trace (snd (buildPath P cm s)) = trace s @ [EvUserHomeDir]"
proof -
  have "run (P\<lparr>os_UserHomeDir := home1\<rparr>) cm calls s = run (P\<lparr>os_UserHomeDir := home2\<rparr>) cm calls s"
    by (simp add: run_home)
  moreover have "\<exists>evs. trace (snd (snd (run P cm calls s))) = trace s @ evs \<and> EvUserHomeDir \<notin> set evs"
    using run_no_home [of s P cm calls] by (simp add: extends_without_home_iff)
  moreover have "trace (snd (buildPath P cm s)) = trace s @ [EvUserHomeDir]"
    by (simp add: buildPath_def call_defs split: sum.splits)
  ultimately show ?thesis by blast
qed

end
